theory Spec2Isabelle
  imports Main
begin

section \<open>The users API of measuring-go-applications/main.go\<close>

text \<open>
  The service has two handlers, \<open>getUserHandler\<close> (GET /user) and \<open>signinHandler\<close>
  (POST /user/auth), both on top of \<open>getUserFromDB\<close>. Go strings and byte slices are
  modelled as \<open>string\<close> (a list of 8-bit characters). Everything a handler does besides
  writing its response (the query it issues, the error it records on the request span, the
  span it starts, the histogram and counter it feeds) is written into an explicit
  \<open>world\<close> that the functions take and return.
\<close>

subsection \<open>Errors and results\<close>

datatype strconv_err = ErrSyntax | ErrRange

text \<open>
  The error values that reach the handlers: \<open>*strconv.NumError\<close>, \<open>sql.ErrNoRows\<close>, any
  other failure of the query (\<open>DriverError\<close>), the two errors of \<open>encoding/hex\<close>, and the
  errors of \<open>golang.org/x/crypto/bcrypt\<close>.
\<close>

datatype error =
    NumError string strconv_err
  | ErrNoRows
  | DriverError string
  | InvalidByteError char
  | ErrLength
  | ErrHashTooShort
  | InvalidHashPrefixError char
  | HashVersionTooNewError char
  | InvalidCostError int
  | CipherSetupError string
  | ErrMismatchedHashAndPassword

text \<open>
  A Go call either returns a value, returns an error, or panics (a slice expression or an
  index out of range).
\<close>

datatype 'a result = Ok 'a | Err error | Panic string

subsection \<open>strconv.Atoi\<close>

definition is_digit :: "char \<Rightarrow> bool" where
  "is_digit c = (48 \<le> (of_char c :: nat) \<and> (of_char c :: nat) \<le> 57)"

definition digit_val :: "char \<Rightarrow> nat" where
  "digit_val c = of_char c - 48"

definition maxUint64 :: nat where
  "maxUint64 = 2 ^ 64 - 1"

text \<open>
  The digit loop of \<open>strconv.ParseUint(s, 10, 64)\<close>: a byte that is no decimal digit is a
  syntax error, an overflow of the 64-bit accumulator a range error, whichever comes first
  from the left.
\<close>

fun ParseUint_loop :: "nat \<Rightarrow> string \<Rightarrow> strconv_err + nat" where
  "ParseUint_loop n [] = Inr n"
| "ParseUint_loop n (c # cs) =
     (if \<not> is_digit c then Inl ErrSyntax
      else if n \<ge> maxUint64 div 10 + 1 then Inl ErrRange
      else (let n1 = n * 10 + digit_val c
            in if n1 > maxUint64 then Inl ErrRange else ParseUint_loop n1 cs))"

text \<open>
  \<open>strconv.Atoi\<close> on a platform whose \<open>int\<close> has 64 bits: an optional sign, then at least
  one decimal digit, the value within the range of \<open>int64\<close>. (The fast path that Atoi takes
  on short strings computes the same result as \<open>ParseInt(s, 10, 0)\<close>, which is what is
  written here.)
\<close>

definition Atoi :: "string \<Rightarrow> int result" where
  "Atoi s =
     (case s of
        [] \<Rightarrow> Err (NumError s ErrSyntax)
      | c # cs \<Rightarrow>
          (let neg = (c = CHR ''-'');
               digits = (if c = CHR ''+'' \<or> c = CHR ''-'' then cs else s)
           in if digits = [] then Err (NumError s ErrSyntax)
              else (case ParseUint_loop 0 digits of
                      Inl e \<Rightarrow> Err (NumError s e)
                    | Inr un \<Rightarrow>
                        if \<not> neg \<and> un \<ge> 2 ^ 63 then Err (NumError s ErrRange)
                        else if neg \<and> un > 2 ^ 63 then Err (NumError s ErrRange)
                        else Ok (if neg then - int un else int un))))"

subsection \<open>hex.DecodeString\<close>

definition fromHexChar :: "char \<Rightarrow> nat option" where
  "fromHexChar c =
     (let n = (of_char c :: nat)
      in if 48 \<le> n \<and> n \<le> 57 then Some (n - 48)
         else if 97 \<le> n \<and> n \<le> 102 then Some (n - 97 + 10)
         else if 65 \<le> n \<and> n \<le> 70 then Some (n - 65 + 10)
         else None)"

text \<open>
  \<open>hex.Decode\<close> walks the source two bytes at a time; the first byte that is no hex digit
  is reported, and a trailing single hex digit is \<open>ErrLength\<close>.
\<close>

fun Decode :: "string \<Rightarrow> string result" where
  "Decode [] = Ok []"
| "Decode [p] =
     (case fromHexChar p of None \<Rightarrow> Err (InvalidByteError p) | Some a \<Rightarrow> Err ErrLength)"
| "Decode (p # q # src) =
     (case fromHexChar p of
        None \<Rightarrow> Err (InvalidByteError p)
      | Some a \<Rightarrow>
          (case fromHexChar q of
             None \<Rightarrow> Err (InvalidByteError q)
           | Some b \<Rightarrow>
               (case Decode src of
                  Ok dst \<Rightarrow> Ok (char_of (a * 16 + b) # dst)
                | Err e \<Rightarrow> Err e
                | Panic m \<Rightarrow> Panic m)))"

definition DecodeString :: "string \<Rightarrow> string result" where
  "DecodeString s = Decode s"

subsection \<open>The store\<close>

text \<open>
  A row of the table \<open>users\<close> as the query selects it. The column \<open>password\<close> is scanned
  into a \<open>sql.NullString\<close>, so it may be NULL; the other three columns are scanned into
  \<open>int\<close> and \<open>string\<close> and are taken to hold values of these types.
\<close>

record row =
  col_id :: int
  col_name :: string
  col_email :: string
  col_password :: "string option"

text \<open>
  The database: its rows, and \<open>outage\<close>, which is \<open>Some msg\<close> while the connection or the
  driver fails (then every query returns that error).
\<close>

record database =
  users :: "row list"
  outage :: "string option"

text \<open>
  \<open>db.QueryRowContext(ctx, "SELECT id, name, email, password FROM users WHERE id = $1",
  k).Scan(...)\<close>: the first row with that id, \<open>sql.ErrNoRows\<close> when there is none.
\<close>

definition QueryRow_Scan :: "database \<Rightarrow> int \<Rightarrow> row result" where
  "QueryRow_Scan d k =
     (case outage d of
        Some msg \<Rightarrow> Err (DriverError msg)
      | None \<Rightarrow>
          (case find (\<lambda>r. col_id r = k) (users d) of
             None \<Rightarrow> Err ErrNoRows
           | Some r \<Rightarrow> Ok r))"

subsection \<open>Telemetry and the world\<close>

datatype attr_value = BoolValue bool | StringValue string

type_synonym KeyValue = "string \<times> attr_value"

text \<open>
  One call of \<open>hashLatency.Record\<close>: the measured duration \<open>time.Since(start)\<close> in
  nanoseconds (the call passes its \<open>Seconds()\<close>), and the attributes of the call.
\<close>

record measurement =
  elapsed :: int
  attributes :: "KeyValue list"

record world =
  db :: database
  queries :: "int list"
  recorded_errors :: "error list"
  spans_started :: "string list"
  spans_ended :: "string list"
  hashLatency :: "measurement list"
  hashError :: "int list"

text \<open>
  \<open>queries\<close> lists the key of every query issued, \<open>recorded_errors\<close> every
  \<open>span.RecordError\<close> on the span of the request, \<open>spans_started\<close> and \<open>spans_ended\<close> the
  spans of the tracer \<open>"test"\<close>, \<open>hashLatency\<close> every observation recorded on the
  histogram \<open>user.auth.password_check.latency\<close> and \<open>hashError\<close> every increment added to
  the counter \<open>user.auth.password_check.errors\<close>.
\<close>

subsection \<open>getUserFromDB\<close>

record User =
  ID :: int
  Name :: string
  Email :: string
  password :: "string option"

text \<open>\<open>password\<close> is \<open>None\<close> for the nil slice that \<open>var user User\<close> starts with.\<close>

definition getUserFromDB :: "world \<Rightarrow> string \<Rightarrow> User result \<times> world" where
  "getUserFromDB w userID =
     (case Atoi userID of
        Err e \<Rightarrow> (Err e, w)
      | Panic m \<Rightarrow> (Panic m, w)
      | Ok userIDInt \<Rightarrow>
          (let w1 = w\<lparr>queries := queries w @ [userIDInt]\<rparr>
           in case QueryRow_Scan (db w1) userIDInt of
                Err e \<Rightarrow> (Err e, w1\<lparr>recorded_errors := recorded_errors w1 @ [e]\<rparr>)
              | Panic m \<Rightarrow> (Panic m, w1)
              | Ok r \<Rightarrow>
                  (let user = \<lparr>ID = col_id r, Name = col_name r, Email = col_email r,
                                password = None\<rparr>
                   in case col_password r of
                        None \<Rightarrow> (Ok user, w1)
                      | Some str \<Rightarrow>
                          (case DecodeString str of
                             Err e \<Rightarrow> (Err e, w1)
                           | Panic m \<Rightarrow> (Panic m, w1)
                           | Ok pwHash \<Rightarrow> (Ok (user\<lparr>password := Some pwHash\<rparr>), w1)))))"

subsection \<open>bcrypt.CompareHashAndPassword\<close>

text \<open>
  The package \<open>golang.org/x/crypto/bcrypt\<close> parses the stored hash into its parts before
  it hashes the submitted password: \<open>newFromHash\<close>, with \<open>decodeVersion\<close>, \<open>decodeCost\<close> and
  \<open>checkCost\<close>, is transcribed here. A hash has the form
  \<open>$<major><minor>$<cost>$<22 bytes of salt><31 bytes of hash>\<close>.
\<close>

record hashed =
  hash :: string
  salt :: string
  cost :: int
  major :: char
  minor :: char

definition majorVersion :: char where
  "majorVersion = CHR ''2''"

definition minHashSize :: nat where
  "minHashSize = 59"

definition encodedSaltSize :: nat where
  "encodedSaltSize = 22"

definition MinCost :: int where
  "MinCost = 4"

definition MaxCost :: int where
  "MaxCost = 31"

text \<open>
  \<open>decodeVersion\<close> reads \<open>sbytes[0]\<close>, \<open>sbytes[1]\<close> and \<open>sbytes[2]\<close>; it returns the number
  of bytes consumed with the major and the minor version (the minor version stays the zero
  byte when the third byte is the separator).
\<close>

fun decodeVersion :: "string \<Rightarrow> (nat \<times> char \<times> char) result" where
  "decodeVersion (b0 # b1 # b2 # rest) =
     (if b0 \<noteq> CHR ''$'' then Err (InvalidHashPrefixError b0)
      else if (of_char b1 :: nat) > of_char majorVersion then Err (HashVersionTooNewError b1)
      else if b2 \<noteq> CHR ''$'' then Ok (4, b1, b2)
      else Ok (3, b1, CHR 0x00))"
| "decodeVersion sbytes = Panic ''index out of range''"

definition checkCost :: "int \<Rightarrow> error option" where
  "checkCost c = (if c < MinCost \<or> c > MaxCost then Some (InvalidCostError c) else None)"

definition decodeCost :: "string \<Rightarrow> (nat \<times> int) result" where
  "decodeCost sbytes =
     (if length sbytes < 2 then Panic ''slice bounds out of range''
      else (case Atoi (take 2 sbytes) of
              Err e \<Rightarrow> Err e
            | Panic m \<Rightarrow> Panic m
            | Ok c \<Rightarrow> (case checkCost c of Some e \<Rightarrow> Err e | None \<Rightarrow> Ok (3, c))))"

definition newFromHash :: "string \<Rightarrow> hashed result" where
  "newFromHash hashedSecret =
     (if length hashedSecret < minHashSize then Err ErrHashTooShort
      else (case decodeVersion hashedSecret of
              Err e \<Rightarrow> Err e
            | Panic m \<Rightarrow> Panic m
            | Ok (n, mj, mn) \<Rightarrow>
                (let hashedSecret1 = drop n hashedSecret
                 in case decodeCost hashedSecret1 of
                      Err e \<Rightarrow> Err e
                    | Panic m \<Rightarrow> Panic m
                    | Ok (n', c) \<Rightarrow>
                        (let hashedSecret2 = drop n' hashedSecret1
                         in if length hashedSecret2 < encodedSaltSize
                            then Panic ''slice bounds out of range''
                            else Ok \<lparr>hash = drop encodedSaltSize hashedSecret2,
                                     salt = take encodedSaltSize hashedSecret2,
                                     cost = c, major = mj, minor = mn\<rparr>))))"

text \<open>
  What follows the parsing, the key derivation \<open>bcrypt(password, p.cost, p.salt)\<close> and the
  constant-time comparison of the two encoded hashes, is a parameter \<open>kdf\<close>: on the parsed
  hash and the password it gives \<open>Inl msg\<close> when the cipher cannot be set up from the salt,
  and otherwise \<open>Inr b\<close>, \<open>b\<close> telling whether the comparison found the hashes equal.
\<close>

type_synonym kdf = "hashed \<Rightarrow> string \<Rightarrow> string + bool"

definition CompareHashAndPassword :: "kdf \<Rightarrow> string \<Rightarrow> string \<Rightarrow> unit result" where
  "CompareHashAndPassword bcrypt hashedPassword pw =
     (case newFromHash hashedPassword of
        Err e \<Rightarrow> Err e
      | Panic m \<Rightarrow> Panic m
      | Ok p \<Rightarrow>
          (case bcrypt p pw of
             Inl msg \<Rightarrow> Err (CipherSetupError msg)
           | Inr True \<Rightarrow> Ok ()
           | Inr False \<Rightarrow> Err ErrMismatchedHashAndPassword))"

subsection \<open>Requests and responses\<close>

text \<open>
  A request carries the fields of its form body and of its URL query, each in order.
  \<open>r.FormValue(key)\<close> is the first value of the key, body before query, and the empty
  string when there is none; \<open>r.URL.Query().Get(key)\<close> reads the query only.
\<close>

record request =
  post_form :: "(string \<times> string) list"
  url_query :: "(string \<times> string) list"

definition FormValue :: "request \<Rightarrow> string \<Rightarrow> string" where
  "FormValue r key =
     (case map_of (post_form r @ url_query r) key of None \<Rightarrow> [] | Some v \<Rightarrow> v)"

definition Query_Get :: "request \<Rightarrow> string \<Rightarrow> string" where
  "Query_Get r key = (case map_of (url_query r) key of None \<Rightarrow> [] | Some v \<Rightarrow> v)"

record response =
  status :: nat
  headers :: "(string \<times> string) list"
  body :: string

definition StatusOK :: nat where
  "StatusOK = 200"

definition StatusBadRequest :: nat where
  "StatusBadRequest = 400"

definition StatusUnauthorized :: nat where
  "StatusUnauthorized = 401"

definition StatusNotFound :: nat where
  "StatusNotFound = 404"

definition StatusInternalServerError :: nat where
  "StatusInternalServerError = 500"

text \<open>\<open>http.Error\<close> writes the message and a newline as plain text.\<close>

definition http_Error :: "string \<Rightarrow> nat \<Rightarrow> response" where
  "http_Error msg code =
     \<lparr>status = code,
      headers = [(''Content-Type'', ''text/plain; charset=utf-8''),
                 (''X-Content-Type-Options'', ''nosniff'')],
      body = msg @ [CHR 0x0A]\<rparr>"

text \<open>
  A handler either writes a response or panics (\<open>net/http\<close> then recovers and drops the
  connection).
\<close>

datatype handled = Responded response | Panicked string

subsection \<open>signinHandler\<close>

definition errors_Is :: "unit result \<Rightarrow> error \<Rightarrow> bool" where
  "errors_Is err target = (err = Err target)"

definition bytes_of :: "string option \<Rightarrow> string" where
  "bytes_of b = (case b of None \<Rightarrow> [] | Some bs \<Rightarrow> bs)"

text \<open>
  \<open>bytes_of\<close> reads a slice that may be nil: the nil slice has length 0.
  \<open>password_check\<close> is the handler from the start of the span \<open>password_check\<close> on;
  \<open>dt\<close> is what \<open>time.Since(start)\<close> measures around the comparison. The deferred
  \<open>span.End()\<close> runs on every way out, also when the comparison panics.
\<close>

definition password_check :: "kdf \<Rightarrow> int \<Rightarrow> world \<Rightarrow> User \<Rightarrow> string \<Rightarrow> handled \<times> world" where
  \<open>password_check bcrypt dt w user pw =
     (let w1 = w\<lparr>spans_started := spans_started w @ [''password_check'']\<rparr>;
          err = CompareHashAndPassword bcrypt (bytes_of (password user)) pw
      in case err of
           Panic m \<Rightarrow> (Panicked m, w1\<lparr>spans_ended := spans_ended w1 @ [''password_check'']\<rparr>)
         | _ \<Rightarrow>
             (let w2 = w1\<lparr>hashLatency := hashLatency w1 @
                         [\<lparr>elapsed = dt,
                           attributes = [(''correct'', BoolValue (err = Ok ()))]\<rparr>]\<rparr>;
                  w3 = (if errors_Is err ErrHashTooShort
                        then w2\<lparr>hashError := hashError w2 @ [1]\<rparr> else w2);
                  w4 = w3\<lparr>spans_ended := spans_ended w3 @ [''password_check'']\<rparr>
              in if err \<noteq> Ok ()
                 then (Responded (http_Error ''Not authenticated'' StatusUnauthorized), w4)
                 else (Responded \<lparr>status = StatusOK, headers = [],
                                   body = ''{"Status":"OK"}'' @ [CHR 0x0A]\<rparr>, w4)))\<close>

definition signinHandler :: "kdf \<Rightarrow> int \<Rightarrow> world \<Rightarrow> request \<Rightarrow> handled \<times> world" where
  "signinHandler bcrypt dt w r =
     (let userID = FormValue r ''id''
      in if userID = []
         then (Responded (http_Error ''Missing user ID'' StatusBadRequest), w)
         else (case getUserFromDB w userID of
                 (Err e, w1) \<Rightarrow>
                   (Responded (http_Error ''Failed to get user'' StatusInternalServerError), w1)
               | (Panic m, w1) \<Rightarrow> (Panicked m, w1)
               | (Ok user, w1) \<Rightarrow> password_check bcrypt dt w1 user (FormValue r ''password'')))"

subsection \<open>getUserHandler\<close>

fun FormatUint :: "nat \<Rightarrow> string" where
  "FormatUint n =
     (if n < 10 then [char_of (48 + n)]
      else FormatUint (n div 10) @ [char_of (48 + n mod 10)])"

definition FormatInt :: "int \<Rightarrow> string" where
  "FormatInt i = (if i < 0 then CHR ''-'' # FormatUint (nat (- i)) else FormatUint (nat i))"

text \<open>
  \<open>json.NewEncoder(w).Encode(user)\<close> writes the exported fields of \<open>User\<close> under the names
  of their tags, in the order of their declaration, and a newline. The field \<open>password\<close>
  is not exported and is not written. How \<open>encoding/json\<close> quotes a string is the
  parameter \<open>quote\<close>.
\<close>

definition Encode_User :: "(string \<Rightarrow> string) \<Rightarrow> User \<Rightarrow> string" where
  \<open>Encode_User quote u =
     ''{"id":'' @ FormatInt (ID u) @ '',"name":'' @ quote (Name u) @
     '',"email":'' @ quote (Email u) @ ''}'' @ [CHR 0x0A]\<close>

definition getUserHandler :: "(string \<Rightarrow> string) \<Rightarrow> world \<Rightarrow> request \<Rightarrow> handled \<times> world" where
  "getUserHandler quote w r =
     (let userID = Query_Get r ''id''
      in if userID = []
         then (Responded (http_Error ''Missing user ID'' StatusBadRequest), w)
         else (case getUserFromDB w userID of
                 (Err e, w1) \<Rightarrow>
                   (Responded (http_Error ''Failed to get user'' StatusInternalServerError), w1)
               | (Panic m, w1) \<Rightarrow> (Panicked m, w1)
               | (Ok user, w1) \<Rightarrow>
                   (Responded \<lparr>status = StatusOK,
                               headers = [(''Content-Type'', ''application/json'')],
                               body = Encode_User quote user\<rparr>, w1)))"

subsection \<open>The view of setupOpenTelemetry\<close>

text \<open>
  The attribute filter of the view registered for \<open>http.server.request.duration\<close>: it
  drops the attribute that carries the user identifier.
\<close>

definition AttributeFilter :: "KeyValue \<Rightarrow> bool" where
  "AttributeFilter k = (fst k \<noteq> ''user_id'')"

subsection \<open>The outcome classes of the specification\<close>

text \<open>
  The specification calls a stored hash malformed when it is structurally invalid for the
  verification primitive (wrong length, prefix or work-factor encoding): the hashes that
  \<open>newFromHash\<close> does not parse.
\<close>

definition spec_malformed_hash :: "string \<Rightarrow> bool" where
  "spec_malformed_hash h = (case newFromHash h of Ok p \<Rightarrow> False | _ \<Rightarrow> True)"

text \<open>The observations that a step from \<open>w\<close> to \<open>w'\<close> added to the histogram.\<close>

definition recorded :: "world \<Rightarrow> world \<Rightarrow> measurement list" where
  "recorded w w' = drop (length (hashLatency w)) (hashLatency w')"

subsection \<open>Sample data\<close>

text \<open>
  A store with one user, requests for it, and a key derivation that accepts the password
  \<open>secret\<close> for every parsed hash. \<open>good_hash\<close> has the shape of a bcrypt hash,
  \<open>bad_prefix_hash\<close> differs from it in its first byte; \<open>stored_good\<close> and
  \<open>stored_bad_prefix\<close> are their hex encodings, as the column \<open>password\<close> holds them.
\<close>

definition good_hash :: string where
  "good_hash = ''$2a$10$N9qo8uLOickgx2ZMRZoMyeIjZAgcfl7p92ldGxad68LJZdL17lhWy''"

definition bad_prefix_hash :: string where
  "bad_prefix_hash = ''x2a$10$N9qo8uLOickgx2ZMRZoMyeIjZAgcfl7p92ldGxad68LJZdL17lhWy''"

definition stored_good :: string where
  "stored_good = ''243261243130244e39716f38754c4f69636b6778325a4d525a6f4d7965496a5a416763666c377039326c644778616436384c4a5a644c31376c685779''"

definition stored_bad_prefix :: string where
  "stored_bad_prefix = ''783261243130244e39716f38754c4f69636b6778325a4d525a6f4d7965496a5a416763666c377039326c644778616436384c4a5a644c31376c685779''"

definition demo_kdf :: kdf where
  "demo_kdf p pw = Inr (pw = ''secret'')"

definition demo_row :: "string option \<Rightarrow> row" where
  "demo_row pw =
     \<lparr>col_id = 1, col_name = ''Ann'', col_email = ''ann@example.org'', col_password = pw\<rparr>"

definition demo_user :: "string option \<Rightarrow> User" where
  "demo_user pw = \<lparr>ID = 1, Name = ''Ann'', Email = ''ann@example.org'', password = pw\<rparr>"

definition demo_world :: "row list \<Rightarrow> string option \<Rightarrow> world" where
  "demo_world rs out =
     \<lparr>db = \<lparr>users = rs, outage = out\<rparr>, queries = [], recorded_errors = [],
      spans_started = [], spans_ended = [], hashLatency = [], hashError = []\<rparr>"

definition signin_request :: "string \<Rightarrow> string \<Rightarrow> request" where
  "signin_request uid pw = \<lparr>post_form = [(''id'', uid), (''password'', pw)], url_query = []\<rparr>"

definition get_request :: "string \<Rightarrow> request" where
  "get_request uid = \<lparr>post_form = [], url_query = [(''id'', uid)]\<rparr>"

text \<open>A quoting of strings that is right for strings without special characters.\<close>

definition demo_quote :: "string \<Rightarrow> string" where
  \<open>demo_quote s = ''"'' @ s @ ''"''\<close>

section \<open>Properties\<close>

subsection \<open>Nothing panics\<close>

lemma Atoi_no_panic: "Atoi s \<noteq> Panic m"
  by (simp add: Atoi_def Let_def split: list.splits sum.splits)

lemma Atoi_Ok_nonempty: "Atoi s = Ok k \<Longrightarrow> s \<noteq> []"
  by (auto simp: Atoi_def)

lemma Decode_no_panic: "Decode s \<noteq> Panic m"
  by (induction s arbitrary: m rule: Decode.induct) (auto split: option.splits result.splits)

lemma DecodeString_no_panic: "DecodeString s \<noteq> Panic m"
  by (simp add: DecodeString_def Decode_no_panic)

lemma QueryRow_Scan_no_panic: "QueryRow_Scan d k \<noteq> Panic m"
  by (simp add: QueryRow_Scan_def split: option.splits)

lemma getUserFromDB_no_panic: "fst (getUserFromDB w u) \<noteq> Panic m"
  by (simp add: getUserFromDB_def Let_def Atoi_no_panic DecodeString_no_panic
      QueryRow_Scan_no_panic split: result.splits option.splits)

text \<open>
  The parser of bcrypt reads the first three bytes, two bytes of cost and 22 bytes of salt
  of a hash that has at least 59 bytes: every index is in range.
\<close>

lemma decodeVersion_cases:
  "3 \<le> length h \<Longrightarrow>
     (\<exists>e. decodeVersion h = Err e \<and> e \<noteq> ErrHashTooShort) \<or>
     (\<exists>n mj mn. decodeVersion h = Ok (n, mj, mn) \<and> n \<le> 4)"
  by (cases h rule: decodeVersion.cases) auto

lemma decodeCost_cases:
  assumes "2 \<le> length h"
  shows "(\<exists>e. decodeCost h = Err e \<and> e \<noteq> ErrHashTooShort) \<or> (\<exists>c. decodeCost h = Ok (3, c))"
proof -
  have "Atoi (take 2 h) \<noteq> Err ErrHashTooShort"
    by (simp add: Atoi_def Let_def split: list.splits sum.splits)
  with assms show ?thesis
    by (cases "Atoi (take 2 h)") (auto simp: decodeCost_def checkCost_def Atoi_no_panic)
qed

lemma newFromHash_cases:
  "(length h < minHashSize \<and> newFromHash h = Err ErrHashTooShort) \<or>
   (minHashSize \<le> length h \<and>
      ((\<exists>e. newFromHash h = Err e \<and> e \<noteq> ErrHashTooShort) \<or> (\<exists>p. newFromHash h = Ok p)))"
proof (cases "length h < minHashSize")
  case True
  then show ?thesis by (simp add: newFromHash_def)
next
  case False
  then have len: "59 \<le> length h" by (simp add: minHashSize_def)
  then have "3 \<le> length h" by simp
  from decodeVersion_cases [OF this] show ?thesis
  proof (elim disjE exE conjE)
    fix e assume "decodeVersion h = Err e" "e \<noteq> ErrHashTooShort"
    with False show ?thesis by (simp add: newFromHash_def)
  next
    fix n mj mn assume dv: "decodeVersion h = Ok (n, mj, mn)" and n: "n \<le> 4"
    with len have "2 \<le> length (drop n h)" by simp
    from decodeCost_cases [OF this] show ?thesis
    proof (elim disjE exE conjE)
      fix e assume "decodeCost (drop n h) = Err e" "e \<noteq> ErrHashTooShort"
      with False dv show ?thesis by (simp add: newFromHash_def)
    next
      fix c assume "decodeCost (drop n h) = Ok (3, c)"
      with False dv n len show ?thesis
        by (simp add: newFromHash_def Let_def encodedSaltSize_def)
    qed
  qed
qed

lemma newFromHash_no_panic: "newFromHash h \<noteq> Panic m"
  using newFromHash_cases [of h] by auto

lemma Compare_no_panic: "CompareHashAndPassword k h pw \<noteq> Panic m"
  by (simp add: CompareHashAndPassword_def newFromHash_no_panic
      split: result.splits sum.splits bool.splits)

lemma Compare_short_iff:
  "CompareHashAndPassword k h pw = Err ErrHashTooShort \<longleftrightarrow> length h < minHashSize"
  using newFromHash_cases [of h]
  by (auto simp: CompareHashAndPassword_def split: result.splits sum.splits bool.splits)

lemma Compare_cases:
  "CompareHashAndPassword k h pw = Ok () \<or> (\<exists>e. CompareHashAndPassword k h pw = Err e)"
  using Compare_no_panic [of k h pw] by (cases "CompareHashAndPassword k h pw") auto

subsection \<open>What the lookup and the password check do to the world\<close>

lemma getUserFromDB_instruments:
  "hashLatency (snd (getUserFromDB w u)) = hashLatency w"
  "hashError (snd (getUserFromDB w u)) = hashError w"
  "spans_started (snd (getUserFromDB w u)) = spans_started w"
  "spans_ended (snd (getUserFromDB w u)) = spans_ended w"
  by (simp_all add: getUserFromDB_def Let_def split: result.splits option.splits)

lemma password_check_Ok:
  assumes "CompareHashAndPassword k (bytes_of (password user)) pw = Ok ()"
  shows "fst (password_check k dt w user pw) =
           Responded \<lparr>status = StatusOK, headers = [], body = ''{\"Status\":\"OK\"}'' @ [CHR 0x0A]\<rparr>"
    and "hashLatency (snd (password_check k dt w user pw)) =
           hashLatency w @ [\<lparr>elapsed = dt, attributes = [(''correct'', BoolValue True)]\<rparr>]"
    and "hashError (snd (password_check k dt w user pw)) = hashError w"
  using assms by (simp_all add: password_check_def Let_def errors_Is_def)

lemma password_check_Err:
  assumes "CompareHashAndPassword k (bytes_of (password user)) pw = Err e"
  shows "fst (password_check k dt w user pw) =
           Responded (http_Error ''Not authenticated'' StatusUnauthorized)"
    and "hashLatency (snd (password_check k dt w user pw)) =
           hashLatency w @ [\<lparr>elapsed = dt, attributes = [(''correct'', BoolValue False)]\<rparr>]"
    and "hashError (snd (password_check k dt w user pw)) =
           (if e = ErrHashTooShort then hashError w @ [1] else hashError w)"
  using assms by (simp_all add: password_check_def Let_def errors_Is_def)

lemma signinHandler_found:
  assumes "FormValue r ''id'' \<noteq> []" and "fst (getUserFromDB w (FormValue r ''id'')) = Ok user"
  shows "signinHandler k dt w r =
           password_check k dt (snd (getUserFromDB w (FormValue r ''id''))) user
             (FormValue r ''password'')"
  using assms by (cases "getUserFromDB w (FormValue r ''id'')") (simp add: signinHandler_def)

lemma signinHandler_failed:
  assumes "FormValue r ''id'' \<noteq> []" and "fst (getUserFromDB w (FormValue r ''id'')) = Err e"
  shows "signinHandler k dt w r =
           (Responded (http_Error ''Failed to get user'' StatusInternalServerError),
            snd (getUserFromDB w (FormValue r ''id'')))"
  using assms by (cases "getUserFromDB w (FormValue r ''id'')") (simp add: signinHandler_def)

lemma getUserHandler_failed:
  assumes "Query_Get r ''id'' \<noteq> []" and "fst (getUserFromDB w (Query_Get r ''id'')) = Err e"
  shows "getUserHandler q w r =
           (Responded (http_Error ''Failed to get user'' StatusInternalServerError),
            snd (getUserFromDB w (Query_Get r ''id'')))"
  using assms by (cases "getUserFromDB w (Query_Get r ''id'')") (simp add: getUserHandler_def)

lemma getUserHandler_found:
  assumes "Query_Get r ''id'' \<noteq> []" and "fst (getUserFromDB w (Query_Get r ''id'')) = Ok user"
  shows "fst (getUserHandler q w r) =
           Responded \<lparr>status = StatusOK, headers = [(''Content-Type'', ''application/json'')],
                       body = Encode_User q user\<rparr>"
  using assms by (cases "getUserFromDB w (Query_Get r ''id'')") (simp add: getUserHandler_def)

text \<open>The definitions that evaluate the handlers on the sample data.\<close>

lemmas eval_defs =
  Atoi_def is_digit_def digit_val_def maxUint64_def fromHexChar_def DecodeString_def
  QueryRow_Scan_def getUserFromDB_def decodeCost_def checkCost_def newFromHash_def
  CompareHashAndPassword_def FormValue_def Query_Get_def http_Error_def errors_Is_def
  bytes_of_def password_check_def signinHandler_def getUserHandler_def Encode_User_def
  FormatInt_def minHashSize_def encodedSaltSize_def MinCost_def MaxCost_def majorVersion_def
  char_of_eq_iff Let_def StatusOK_def StatusBadRequest_def StatusUnauthorized_def
  StatusNotFound_def StatusInternalServerError_def AttributeFilter_def spec_malformed_hash_def
  recorded_def good_hash_def bad_prefix_hash_def stored_good_def stored_bad_prefix_def
  demo_kdf_def demo_row_def demo_user_def demo_world_def signin_request_def get_request_def

lemma lookup_good:
  "fst (getUserFromDB (demo_world [demo_row (Some stored_good)] None) ''1'') =
     Ok (demo_user (Some good_hash))"
  by (simp add: eval_defs)

lemma lookup_bad_prefix:
  "fst (getUserFromDB (demo_world [demo_row (Some stored_bad_prefix)] None) ''1'') =
     Ok (demo_user (Some bad_prefix_hash))"
  by (simp add: eval_defs)

lemma lookup_null:
  "fst (getUserFromDB (demo_world [demo_row None] None) ''1'') = Ok (demo_user None)"
  by (simp add: eval_defs)

lemma compare_good:
  "CompareHashAndPassword demo_kdf good_hash ''secret'' = Ok ()"
  "CompareHashAndPassword demo_kdf good_hash ''wrong'' = Err ErrMismatchedHashAndPassword"
  "CompareHashAndPassword demo_kdf bad_prefix_hash ''secret'' =
     Err (InvalidHashPrefixError (CHR ''x''))"
  by (simp_all add: eval_defs)

section \<open>The claims\<close>

subsection \<open>The error counter\<close>

text \<open>
  C1, as the specification states it, fails: a stored hash of 60 bytes whose first byte is
  not \<open>$\<close> is malformed (the parser rejects its prefix), the sign-in is refused, and the
  error counter is not incremented.
\<close>

theorem malformed_prefix_not_counted:
  "spec_malformed_hash bad_prefix_hash \<and>
   fst (getUserFromDB (demo_world [demo_row (Some stored_bad_prefix)] None) ''1'') =
     Ok (demo_user (Some bad_prefix_hash)) \<and>
   CompareHashAndPassword demo_kdf bad_prefix_hash ''secret'' =
     Err (InvalidHashPrefixError (CHR ''x'')) \<and>
   hashError (snd (signinHandler demo_kdf 5 (demo_world [demo_row (Some stored_bad_prefix)] None)
     (signin_request ''1'' ''secret''))) = []"
  by (simp add: eval_defs)

text \<open>
  C1, amended: when the lookup returned a record, the sign-in increments the error counter
  exactly once if the comparison returns \<open>ErrHashTooShort\<close>, which it does exactly when
  the stored hash is absent or shorter than 59 bytes, and leaves the counter alone
  otherwise; in particular a mismatch never increments it.
\<close>

theorem hashError_incremented_iff_hash_too_short:
  assumes "FormValue r ''id'' \<noteq> []"
    and "fst (getUserFromDB w (FormValue r ''id'')) = Ok user"
  shows "hashError (snd (signinHandler bcrypt dt w r)) =
           (if CompareHashAndPassword bcrypt (bytes_of (password user)) (FormValue r ''password'')
                 = Err ErrHashTooShort
            then hashError w @ [1] else hashError w) \<and>
         (CompareHashAndPassword bcrypt (bytes_of (password user)) (FormValue r ''password'')
            = Err ErrHashTooShort \<longleftrightarrow> length (bytes_of (password user)) < minHashSize) \<and>
         (CompareHashAndPassword bcrypt (bytes_of (password user)) (FormValue r ''password'')
            = Err ErrMismatchedHashAndPassword \<longrightarrow>
          hashError (snd (signinHandler bcrypt dt w r)) = hashError w)"
proof -
  let ?err = "CompareHashAndPassword bcrypt (bytes_of (password user)) (FormValue r ''password'')"
  let ?w1 = "snd (getUserFromDB w (FormValue r ''id''))"
  have run: "signinHandler bcrypt dt w r =
      password_check bcrypt dt ?w1 user (FormValue r ''password'')"
    using assms by (rule signinHandler_found)
  have frame: "hashError ?w1 = hashError w"
    by (rule getUserFromDB_instruments)
  have counter: "hashError (snd (signinHandler bcrypt dt w r)) =
      (if ?err = Err ErrHashTooShort then hashError w @ [1] else hashError w)"
  proof -
    from Compare_cases [of bcrypt "bytes_of (password user)" "FormValue r ''password''"]
    show ?thesis
    proof (elim disjE exE)
      assume ok: "?err = Ok ()"
      then show ?thesis by (simp add: run frame password_check_Ok(3))
    next
      fix e assume e: "?err = Err e"
      then show ?thesis by (simp add: run frame password_check_Err(3))
    qed
  qed
  moreover have "?err = Err ErrHashTooShort \<longleftrightarrow> length (bytes_of (password user)) < minHashSize"
    by (rule Compare_short_iff)
  moreover have "?err = Err ErrMismatchedHashAndPassword \<longrightarrow>
      hashError (snd (signinHandler bcrypt dt w r)) = hashError w"
    using counter by simp
  ultimately show ?thesis by blast
qed

theorem hashError_incremented_iff_hash_too_short_witness:
  "hashError (snd (signinHandler demo_kdf 5 (demo_world [demo_row None] None)
     (signin_request ''1'' ''secret''))) = [1] \<and>
   hashError (snd (signinHandler demo_kdf 5 (demo_world [demo_row (Some stored_good)] None)
     (signin_request ''1'' ''wrong''))) = []"
proof -
  have id: "FormValue (signin_request ''1'' pw) ''id'' = ''1''" for pw
    by (simp add: eval_defs)
  have pw: "FormValue (signin_request ''1'' pw) ''password'' = pw" for pw
    by (simp add: eval_defs)
  have short: "CompareHashAndPassword demo_kdf (bytes_of (password (demo_user None))) ''secret''
      = Err ErrHashTooShort"
    by (simp add: eval_defs)
  have mismatch: "CompareHashAndPassword demo_kdf (bytes_of (password (demo_user (Some good_hash))))
      ''wrong'' = Err ErrMismatchedHashAndPassword"
    by (simp add: eval_defs)
  have empty: "hashError (demo_world rs None) = []" for rs
    by (simp add: demo_world_def)
  have "hashError (snd (signinHandler demo_kdf 5 (demo_world [demo_row None] None)
      (signin_request ''1'' ''secret''))) = [1]"
    using hashError_incremented_iff_hash_too_short
      [of "signin_request ''1'' ''secret''" "demo_world [demo_row None] None" "demo_user None"
        demo_kdf 5]
    by (simp add: id pw lookup_null short empty)
  moreover have "hashError (snd (signinHandler demo_kdf 5
      (demo_world [demo_row (Some stored_good)] None) (signin_request ''1'' ''wrong''))) = []"
    using hashError_incremented_iff_hash_too_short
      [of "signin_request ''1'' ''wrong''" "demo_world [demo_row (Some stored_good)] None"
        "demo_user (Some good_hash)" demo_kdf 5]
    by (simp add: id pw lookup_good mismatch empty)
  ultimately show ?thesis by simp
qed

subsection \<open>The latency histogram\<close>

text \<open>
  C2: whenever the lookup returned a record, the sign-in records exactly one observation on
  the latency histogram, whatever the comparison returns (a match, a mismatch, a malformed
  or an absent hash), and its only attribute is the boolean \<open>correct\<close>, true exactly when
  the comparison returned no error.
\<close>

theorem signinHandler_one_latency_observation:
  assumes "FormValue r ''id'' \<noteq> []"
    and "fst (getUserFromDB w (FormValue r ''id'')) = Ok user"
  shows "hashLatency (snd (signinHandler bcrypt dt w r)) =
           hashLatency w @
             [\<lparr>elapsed = dt,
               attributes = [(''correct'', BoolValue
                 (CompareHashAndPassword bcrypt (bytes_of (password user))
                    (FormValue r ''password'') = Ok ()))]\<rparr>]"
proof -
  let ?err = "CompareHashAndPassword bcrypt (bytes_of (password user)) (FormValue r ''password'')"
  let ?w1 = "snd (getUserFromDB w (FormValue r ''id''))"
  have run: "signinHandler bcrypt dt w r =
      password_check bcrypt dt ?w1 user (FormValue r ''password'')"
    using assms by (rule signinHandler_found)
  have frame: "hashLatency ?w1 = hashLatency w"
    by (rule getUserFromDB_instruments)
  from Compare_cases [of bcrypt "bytes_of (password user)" "FormValue r ''password''"]
  show ?thesis
  proof (elim disjE exE)
    assume "?err = Ok ()"
    then show ?thesis by (simp add: run frame password_check_Ok(2))
  next
    fix e assume "?err = Err e"
    then show ?thesis by (simp add: run frame password_check_Err(2))
  qed
qed

theorem signinHandler_one_latency_observation_witness:
  "hashLatency (snd (signinHandler demo_kdf 5 (demo_world [demo_row (Some stored_good)] None)
     (signin_request ''1'' ''secret''))) =
   [\<lparr>elapsed = 5, attributes = [(''correct'', BoolValue True)]\<rparr>]"
proof -
  have id: "FormValue (signin_request ''1'' ''secret'') ''id'' = ''1''"
    by (simp add: eval_defs)
  have pw: "FormValue (signin_request ''1'' ''secret'') ''password'' = ''secret''"
    by (simp add: eval_defs)
  have empty: "hashLatency (demo_world rs None) = []" for rs
    by (simp add: demo_world_def)
  show ?thesis
    using signinHandler_one_latency_observation
      [of "signin_request ''1'' ''secret''" "demo_world [demo_row (Some stored_good)] None"
        "demo_user (Some good_hash)" demo_kdf 5]
    by (simp add: id pw lookup_good compare_good empty demo_user_def bytes_of_def)
qed

subsection \<open>Identifiers that are absent or do not parse\<close>

text \<open>
  C3, as the specification states it, fails: for an identifier that no row has, the lookup
  returns \<open>sql.ErrNoRows\<close>, and the handler answers with status 500, not 404: the very
  response it gives while the store is down.
\<close>

theorem absent_id_not_404:
  "fst (getUserFromDB (demo_world [demo_row None] None) ''7'') = Err ErrNoRows \<and>
   fst (signinHandler demo_kdf 5 (demo_world [demo_row None] None) (signin_request ''7'' ''secret''))
     = Responded (http_Error ''Failed to get user'' StatusInternalServerError) \<and>
   fst (signinHandler demo_kdf 5 (demo_world [demo_row None] (Some ''database is locked''))
     (signin_request ''7'' ''secret''))
     = Responded (http_Error ''Failed to get user'' StatusInternalServerError) \<and>
   StatusInternalServerError \<noteq> StatusNotFound"
  by (simp add: eval_defs)

text \<open>
  C3, amended: for every identifier that parses and that no row of the store has, the
  lookup issues one query and returns \<open>sql.ErrNoRows\<close>, never the error of a failing
  store, and records it on the span of the request; both handlers answer with status 500
  and the message of every failed lookup.
\<close>

theorem absent_id_ErrNoRows_and_500:
  assumes "Atoi userID = Ok k"
    and "outage (db w) = None"
    and "find (\<lambda>rw. col_id rw = k) (users (db w)) = None"
  shows "getUserFromDB w userID =
           (Err ErrNoRows,
            w\<lparr>queries := queries w @ [k], recorded_errors := recorded_errors w @ [ErrNoRows]\<rparr>) \<and>
         (\<forall>msg. fst (getUserFromDB w userID) \<noteq> Err (DriverError msg)) \<and>
         (FormValue r ''id'' = userID \<longrightarrow>
            fst (signinHandler bcrypt dt w r) =
              Responded (http_Error ''Failed to get user'' StatusInternalServerError)) \<and>
         (Query_Get r ''id'' = userID \<longrightarrow>
            fst (getUserHandler quote w r) =
              Responded (http_Error ''Failed to get user'' StatusInternalServerError))"
proof -
  have lookup: "getUserFromDB w userID =
      (Err ErrNoRows,
       w\<lparr>queries := queries w @ [k], recorded_errors := recorded_errors w @ [ErrNoRows]\<rparr>)"
    using assms by (simp add: getUserFromDB_def QueryRow_Scan_def Let_def)
  have nonempty: "userID \<noteq> []"
    using assms(1) by (rule Atoi_Ok_nonempty)
  have "fst (signinHandler bcrypt dt w r) =
      Responded (http_Error ''Failed to get user'' StatusInternalServerError)"
    if "FormValue r ''id'' = userID"
    using that nonempty lookup signinHandler_failed [of r w ErrNoRows bcrypt dt] by simp
  moreover have "fst (getUserHandler quote w r) =
      Responded (http_Error ''Failed to get user'' StatusInternalServerError)"
    if "Query_Get r ''id'' = userID"
    using that nonempty lookup getUserHandler_failed [of r w ErrNoRows quote] by simp
  ultimately show ?thesis using lookup by simp
qed

theorem absent_id_ErrNoRows_and_500_witness:
  "getUserFromDB (demo_world [demo_row None] None) ''7'' =
     (Err ErrNoRows,
      (demo_world [demo_row None] None)\<lparr>queries := [7], recorded_errors := [ErrNoRows]\<rparr>) \<and>
   fst (signinHandler demo_kdf 5 (demo_world [demo_row None] None) (signin_request ''7'' ''secret''))
     = Responded (http_Error ''Failed to get user'' StatusInternalServerError) \<and>
   fst (getUserHandler id (demo_world [demo_row None] None) (get_request ''7''))
     = Responded (http_Error ''Failed to get user'' StatusInternalServerError)"
proof -
  have h1: "Atoi ''7'' = Ok 7"
    by (simp add: eval_defs)
  have h2: "outage (db (demo_world [demo_row None] None)) = None"
    by (simp add: eval_defs)
  have h3: "find (\<lambda>rw. col_id rw = 7) (users (db (demo_world [demo_row None] None))) = None"
    by (simp add: eval_defs)
  have f: "FormValue (signin_request ''7'' ''secret'') ''id'' = ''7''"
    by (simp add: eval_defs)
  have q: "Query_Get (get_request ''7'') ''id'' = ''7''"
    by (simp add: eval_defs)
  have e: "queries (demo_world [demo_row None] None) = []"
    "recorded_errors (demo_world [demo_row None] None) = []"
    by (simp_all add: demo_world_def)
  show ?thesis
    using absent_id_ErrNoRows_and_500 [OF h1 h2 h3,
        where r = "signin_request ''7'' ''secret''" and bcrypt = demo_kdf and dt = 5
          and quote = id]
      absent_id_ErrNoRows_and_500 [OF h1 h2 h3,
        where r = "get_request ''7''" and bcrypt = demo_kdf and dt = 5 and quote = id]
    by (simp add: f q e)
qed

text \<open>
  C4, as the specification states it, fails: an identifier that is no integer is rejected
  before the store is asked, but the answer has status 500, not 400.
\<close>

theorem unparseable_id_not_400:
  "Atoi ''abc'' = Err (NumError ''abc'' ErrSyntax) \<and>
   signinHandler demo_kdf 5 (demo_world [demo_row None] None) (signin_request ''abc'' ''secret'')
     = (Responded (http_Error ''Failed to get user'' StatusInternalServerError),
        demo_world [demo_row None] None) \<and>
   StatusInternalServerError \<noteq> StatusBadRequest"
  by (simp add: eval_defs)

text \<open>
  C4, amended: for every identifier that \<open>strconv.Atoi\<close> rejects, the lookup returns that
  error and leaves the world as it was: no query is issued and nothing is recorded. A
  handler that read such an identifier, if it is not empty, answers with status 500 and
  changes nothing. Status 400 is the answer to a missing or empty identifier only.
\<close>

theorem unparseable_id_no_query_and_500:
  assumes "Atoi userID = Err e"
  shows "getUserFromDB w userID = (Err e, w) \<and>
         (userID \<noteq> [] \<and> FormValue r ''id'' = userID \<longrightarrow>
            signinHandler bcrypt dt w r =
              (Responded (http_Error ''Failed to get user'' StatusInternalServerError), w)) \<and>
         (userID \<noteq> [] \<and> Query_Get r ''id'' = userID \<longrightarrow>
            getUserHandler quote w r =
              (Responded (http_Error ''Failed to get user'' StatusInternalServerError), w)) \<and>
         (userID = [] \<and> FormValue r ''id'' = userID \<longrightarrow>
            signinHandler bcrypt dt w r =
              (Responded (http_Error ''Missing user ID'' StatusBadRequest), w)) \<and>
         (userID = [] \<and> Query_Get r ''id'' = userID \<longrightarrow>
            getUserHandler quote w r =
              (Responded (http_Error ''Missing user ID'' StatusBadRequest), w))"
proof -
  have lookup: "getUserFromDB w userID = (Err e, w)"
    using assms by (simp add: getUserFromDB_def)
  have "signinHandler bcrypt dt w r =
      (Responded (http_Error ''Failed to get user'' StatusInternalServerError), w)"
    if "userID \<noteq> []" "FormValue r ''id'' = userID"
    using that lookup signinHandler_failed [of r w e bcrypt dt] by simp
  moreover have "getUserHandler quote w r =
      (Responded (http_Error ''Failed to get user'' StatusInternalServerError), w)"
    if "userID \<noteq> []" "Query_Get r ''id'' = userID"
    using that lookup getUserHandler_failed [of r w e quote] by simp
  moreover have "signinHandler bcrypt dt w r =
      (Responded (http_Error ''Missing user ID'' StatusBadRequest), w)"
    if "FormValue r ''id'' = []"
    using that by (simp add: signinHandler_def)
  moreover have "getUserHandler quote w r =
      (Responded (http_Error ''Missing user ID'' StatusBadRequest), w)"
    if "Query_Get r ''id'' = []"
    using that by (simp add: getUserHandler_def)
  ultimately show ?thesis using lookup by simp
qed

theorem unparseable_id_no_query_and_500_witness:
  "getUserFromDB (demo_world [demo_row None] None) ''abc'' =
     (Err (NumError ''abc'' ErrSyntax), demo_world [demo_row None] None) \<and>
   signinHandler demo_kdf 5 (demo_world [demo_row None] None) (signin_request ''abc'' ''secret'')
     = (Responded (http_Error ''Failed to get user'' StatusInternalServerError),
        demo_world [demo_row None] None) \<and>
   getUserHandler id (demo_world [demo_row None] None) (get_request ''abc'')
     = (Responded (http_Error ''Failed to get user'' StatusInternalServerError),
        demo_world [demo_row None] None) \<and>
   signinHandler demo_kdf 5 (demo_world [demo_row None] None) (signin_request [] ''secret'')
     = (Responded (http_Error ''Missing user ID'' StatusBadRequest),
        demo_world [demo_row None] None) \<and>
   getUserHandler id (demo_world [demo_row None] None) (get_request [])
     = (Responded (http_Error ''Missing user ID'' StatusBadRequest),
        demo_world [demo_row None] None)"
proof -
  have h: "Atoi ''abc'' = Err (NumError ''abc'' ErrSyntax)"
    by (simp add: eval_defs)
  have h0: "Atoi [] = Err (NumError [] ErrSyntax)"
    by (simp add: eval_defs)
  have f: "FormValue (signin_request u ''secret'') ''id'' = u" for u
    by (simp add: eval_defs)
  have q: "Query_Get (get_request u) ''id'' = u" for u
    by (simp add: eval_defs)
  show ?thesis
    using unparseable_id_no_query_and_500 [OF h,
        where w = "demo_world [demo_row None] None" and r = "signin_request ''abc'' ''secret''"
          and bcrypt = demo_kdf and dt = 5 and quote = id]
      unparseable_id_no_query_and_500 [OF h,
        where w = "demo_world [demo_row None] None" and r = "get_request ''abc''"
          and bcrypt = demo_kdf and dt = 5 and quote = id]
      unparseable_id_no_query_and_500 [OF h0,
        where w = "demo_world [demo_row None] None" and r = "signin_request [] ''secret''"
          and bcrypt = demo_kdf and dt = 5 and quote = id]
      unparseable_id_no_query_and_500 [OF h0,
        where w = "demo_world [demo_row None] None" and r = "get_request []"
          and bcrypt = demo_kdf and dt = 5 and quote = id]
    by (simp add: f q)
qed

subsection \<open>The password check and its responses\<close>

text \<open>
  C5, as the specification states it, fails in one respect: a record without a hash is
  not treated as a mismatch. For the same request, a user whose column is NULL and a user
  whose well-formed hash does not match both get status 401, but the comparison returns
  \<open>ErrHashTooShort\<close> for the first and the mismatch error for the second, and only the
  first increments the error counter.
\<close>

theorem absent_hash_counted_unlike_mismatch:
  "fst (getUserFromDB (demo_world [demo_row None] None) ''1'') = Ok (demo_user None) \<and>
   CompareHashAndPassword demo_kdf (bytes_of (password (demo_user None))) ''wrong'' =
     Err ErrHashTooShort \<and>
   CompareHashAndPassword demo_kdf (bytes_of (password (demo_user (Some good_hash)))) ''wrong'' =
     Err ErrMismatchedHashAndPassword \<and>
   fst (signinHandler demo_kdf 5 (demo_world [demo_row None] None) (signin_request ''1'' ''wrong''))
     = Responded (http_Error ''Not authenticated'' StatusUnauthorized) \<and>
   fst (signinHandler demo_kdf 5 (demo_world [demo_row (Some stored_good)] None)
     (signin_request ''1'' ''wrong''))
     = Responded (http_Error ''Not authenticated'' StatusUnauthorized) \<and>
   hashError (snd (signinHandler demo_kdf 5 (demo_world [demo_row None] None)
     (signin_request ''1'' ''wrong''))) = [1] \<and>
   hashError (snd (signinHandler demo_kdf 5 (demo_world [demo_row (Some stored_good)] None)
     (signin_request ''1'' ''wrong''))) = []"
  by (simp add: eval_defs)

text \<open>
  C5, amended: when the row of the user has no password (the column is NULL, so the record
  keeps the nil slice), the sign-in is refused for every submitted password and every key
  derivation: the handler responds (it does not panic) with status 401, the response of a
  wrong password, and the observation it records says \<open>correct = false\<close>. The
  comparison returns \<open>ErrHashTooShort\<close>, not the mismatch error, so the error counter is
  incremented exactly once.
\<close>

theorem absent_hash_not_authenticated:
  assumes "Atoi (FormValue r ''id'') = Ok k"
    and "QueryRow_Scan (db w) k = Ok rw"
    and "col_password rw = None"
  shows "(\<exists>user. fst (getUserFromDB w (FormValue r ''id'')) = Ok user \<and> password user = None \<and>
            CompareHashAndPassword bcrypt (bytes_of (password user)) (FormValue r ''password'')
              = Err ErrHashTooShort) \<and>
         fst (signinHandler bcrypt dt w r) =
           Responded (http_Error ''Not authenticated'' StatusUnauthorized) \<and>
         hashLatency (snd (signinHandler bcrypt dt w r)) =
           hashLatency w @ [\<lparr>elapsed = dt, attributes = [(''correct'', BoolValue False)]\<rparr>] \<and>
         hashError (snd (signinHandler bcrypt dt w r)) = hashError w @ [1]"
proof -
  let ?user = "\<lparr>ID = col_id rw, Name = col_name rw, Email = col_email rw, password = None\<rparr>"
  let ?w1 = "snd (getUserFromDB w (FormValue r ''id''))"
  have lookup: "fst (getUserFromDB w (FormValue r ''id'')) = Ok ?user"
    using assms by (simp add: getUserFromDB_def Let_def)
  have nonempty: "FormValue r ''id'' \<noteq> []"
    using assms(1) by (rule Atoi_Ok_nonempty)
  have run: "signinHandler bcrypt dt w r =
      password_check bcrypt dt ?w1 ?user (FormValue r ''password'')"
    using nonempty lookup by (rule signinHandler_found)
  have err: "CompareHashAndPassword bcrypt (bytes_of (password ?user)) (FormValue r ''password'')
      = Err ErrHashTooShort"
    by (simp add: Compare_short_iff bytes_of_def minHashSize_def)
  have frame: "hashLatency ?w1 = hashLatency w" "hashError ?w1 = hashError w"
    by (rule getUserFromDB_instruments)+
  have found: "\<exists>user. fst (getUserFromDB w (FormValue r ''id'')) = Ok user \<and>
      password user = None \<and>
      CompareHashAndPassword bcrypt (bytes_of (password user)) (FormValue r ''password'')
        = Err ErrHashTooShort"
    using lookup err by (intro exI [of _ ?user]) simp
  have "fst (signinHandler bcrypt dt w r) =
      Responded (http_Error ''Not authenticated'' StatusUnauthorized)"
    unfolding run using err by (rule password_check_Err(1))
  moreover have "hashLatency (snd (signinHandler bcrypt dt w r)) =
      hashLatency w @ [\<lparr>elapsed = dt, attributes = [(''correct'', BoolValue False)]\<rparr>]"
    unfolding run using password_check_Err(2) [OF err] frame by simp
  moreover have "hashError (snd (signinHandler bcrypt dt w r)) = hashError w @ [1]"
    unfolding run using password_check_Err(3) [OF err] frame by simp
  ultimately show ?thesis using found by blast
qed

theorem absent_hash_not_authenticated_witness:
  "fst (signinHandler demo_kdf 5 (demo_world [demo_row None] None) (signin_request ''1'' ''secret''))
     = Responded (http_Error ''Not authenticated'' StatusUnauthorized) \<and>
   hashLatency (snd (signinHandler demo_kdf 5 (demo_world [demo_row None] None)
     (signin_request ''1'' ''secret''))) =
   [\<lparr>elapsed = 5, attributes = [(''correct'', BoolValue False)]\<rparr>] \<and>
   hashError (snd (signinHandler demo_kdf 5 (demo_world [demo_row None] None)
     (signin_request ''1'' ''secret''))) = [1]"
proof -
  have h1: "Atoi (FormValue (signin_request ''1'' ''secret'') ''id'') = Ok 1"
    by (simp add: eval_defs)
  have h2: "QueryRow_Scan (db (demo_world [demo_row None] None)) 1 = Ok (demo_row None)"
    by (simp add: eval_defs)
  have h3: "col_password (demo_row None) = None"
    by (simp add: demo_row_def)
  have empty: "hashLatency (demo_world [demo_row None] None) = []"
    "hashError (demo_world [demo_row None] None) = []"
    by (simp_all add: demo_world_def)
  show ?thesis
    using absent_hash_not_authenticated [OF h1 h2 h3, where bcrypt = demo_kdf and dt = 5]
    by (simp add: empty)
qed

text \<open>
  C6: the responses of POST /user/auth. A missing identifier gets status 400; a failed
  lookup status 500; a record whose hash matches the password gets status 200 and the
  body \<open>{"Status":"OK"}\<close> (and a newline); every error of the comparison, a mismatch as
  well as a malformed hash, gets the same response with status 401.
\<close>

theorem signinHandler_responses:
  "(FormValue r ''id'' = [] \<longrightarrow>
      fst (signinHandler bcrypt dt w r) =
        Responded (http_Error ''Missing user ID'' StatusBadRequest)) \<and>
   (FormValue r ''id'' \<noteq> [] \<and> fst (getUserFromDB w (FormValue r ''id'')) = Err e \<longrightarrow>
      fst (signinHandler bcrypt dt w r) =
        Responded (http_Error ''Failed to get user'' StatusInternalServerError)) \<and>
   (FormValue r ''id'' \<noteq> [] \<and> fst (getUserFromDB w (FormValue r ''id'')) = Ok user \<and>
    CompareHashAndPassword bcrypt (bytes_of (password user)) (FormValue r ''password'') = Ok ()
    \<longrightarrow>
      fst (signinHandler bcrypt dt w r) =
        Responded \<lparr>status = StatusOK, headers = [],
                    body = ''{\"Status\":\"OK\"}'' @ [CHR 0x0A]\<rparr>) \<and>
   (FormValue r ''id'' \<noteq> [] \<and> fst (getUserFromDB w (FormValue r ''id'')) = Ok user \<and>
    CompareHashAndPassword bcrypt (bytes_of (password user)) (FormValue r ''password'') = Err e'
    \<longrightarrow>
      fst (signinHandler bcrypt dt w r) =
        Responded (http_Error ''Not authenticated'' StatusUnauthorized))"
proof (intro conjI impI)
  assume "FormValue r ''id'' = []"
  then show "fst (signinHandler bcrypt dt w r) =
      Responded (http_Error ''Missing user ID'' StatusBadRequest)"
    by (simp add: signinHandler_def)
next
  assume "FormValue r ''id'' \<noteq> [] \<and> fst (getUserFromDB w (FormValue r ''id'')) = Err e"
  then show "fst (signinHandler bcrypt dt w r) =
      Responded (http_Error ''Failed to get user'' StatusInternalServerError)"
    using signinHandler_failed [of r w e bcrypt dt] by simp
next
  assume "FormValue r ''id'' \<noteq> [] \<and> fst (getUserFromDB w (FormValue r ''id'')) = Ok user \<and>
    CompareHashAndPassword bcrypt (bytes_of (password user)) (FormValue r ''password'') = Ok ()"
  then show "fst (signinHandler bcrypt dt w r) =
      Responded \<lparr>status = StatusOK, headers = [], body = ''{\"Status\":\"OK\"}'' @ [CHR 0x0A]\<rparr>"
    using signinHandler_found [of r w user bcrypt dt] by (simp add: password_check_Ok(1))
next
  assume "FormValue r ''id'' \<noteq> [] \<and> fst (getUserFromDB w (FormValue r ''id'')) = Ok user \<and>
    CompareHashAndPassword bcrypt (bytes_of (password user)) (FormValue r ''password'') = Err e'"
  then show "fst (signinHandler bcrypt dt w r) =
      Responded (http_Error ''Not authenticated'' StatusUnauthorized)"
    using signinHandler_found [of r w user bcrypt dt] by (simp add: password_check_Err(1))
qed

theorem signinHandler_responses_witness:
  "fst (signinHandler demo_kdf 5 (demo_world [demo_row (Some stored_good)] None)
     (signin_request [] ''secret'')) =
     Responded (http_Error ''Missing user ID'' StatusBadRequest) \<and>
   fst (signinHandler demo_kdf 5 (demo_world [demo_row (Some stored_good)] (Some ''database is locked''))
     (signin_request ''1'' ''secret'')) =
     Responded (http_Error ''Failed to get user'' StatusInternalServerError) \<and>
   fst (signinHandler demo_kdf 5 (demo_world [demo_row (Some stored_good)] None)
     (signin_request ''1'' ''secret'')) =
     Responded \<lparr>status = StatusOK, headers = [], body = ''{\"Status\":\"OK\"}'' @ [CHR 0x0A]\<rparr> \<and>
   fst (signinHandler demo_kdf 5 (demo_world [demo_row (Some stored_good)] None)
     (signin_request ''1'' ''wrong'')) =
     Responded (http_Error ''Not authenticated'' StatusUnauthorized) \<and>
   fst (signinHandler demo_kdf 5 (demo_world [demo_row (Some stored_bad_prefix)] None)
     (signin_request ''1'' ''secret'')) =
     Responded (http_Error ''Not authenticated'' StatusUnauthorized)"
proof -
  have f: "FormValue (signin_request u p) ''id'' = u" "FormValue (signin_request u p) ''password'' = p"
    for u p
    by (simp_all add: eval_defs)
  have down: "fst (getUserFromDB (demo_world [demo_row (Some stored_good)]
      (Some ''database is locked'')) ''1'') = Err (DriverError ''database is locked'')"
    by (simp add: eval_defs)
  have b: "bytes_of (password (demo_user (Some h))) = h" for h
    by (simp add: demo_user_def bytes_of_def)
  have "fst (signinHandler demo_kdf 5 (demo_world [demo_row (Some stored_good)] None)
      (signin_request [] ''secret'')) =
      Responded (http_Error ''Missing user ID'' StatusBadRequest)"
    using signinHandler_responses
      [where r = "signin_request [] ''secret''" and bcrypt = demo_kdf and dt = 5
        and w = "demo_world [demo_row (Some stored_good)] None"]
    by (simp add: f)
  moreover have "fst (signinHandler demo_kdf 5
      (demo_world [demo_row (Some stored_good)] (Some ''database is locked''))
      (signin_request ''1'' ''secret'')) =
      Responded (http_Error ''Failed to get user'' StatusInternalServerError)"
    using signinHandler_responses
      [where r = "signin_request ''1'' ''secret''" and bcrypt = demo_kdf and dt = 5
        and w = "demo_world [demo_row (Some stored_good)] (Some ''database is locked'')"
        and e = "DriverError ''database is locked''"]
    by (simp add: f down)
  moreover have "fst (signinHandler demo_kdf 5 (demo_world [demo_row (Some stored_good)] None)
      (signin_request ''1'' ''secret'')) =
      Responded \<lparr>status = StatusOK, headers = [], body = ''{\"Status\":\"OK\"}'' @ [CHR 0x0A]\<rparr>"
    using signinHandler_responses
      [where r = "signin_request ''1'' ''secret''" and bcrypt = demo_kdf and dt = 5
        and w = "demo_world [demo_row (Some stored_good)] None"
        and user = "demo_user (Some good_hash)"]
    by (simp add: f b lookup_good compare_good)
  moreover have "fst (signinHandler demo_kdf 5 (demo_world [demo_row (Some stored_good)] None)
      (signin_request ''1'' ''wrong'')) =
      Responded (http_Error ''Not authenticated'' StatusUnauthorized)"
    using signinHandler_responses
      [where r = "signin_request ''1'' ''wrong''" and bcrypt = demo_kdf and dt = 5
        and w = "demo_world [demo_row (Some stored_good)] None"
        and user = "demo_user (Some good_hash)" and e' = ErrMismatchedHashAndPassword]
    by (simp add: f b lookup_good compare_good)
  moreover have "fst (signinHandler demo_kdf 5 (demo_world [demo_row (Some stored_bad_prefix)] None)
      (signin_request ''1'' ''secret'')) =
      Responded (http_Error ''Not authenticated'' StatusUnauthorized)"
    using signinHandler_responses
      [where r = "signin_request ''1'' ''secret''" and bcrypt = demo_kdf and dt = 5
        and w = "demo_world [demo_row (Some stored_bad_prefix)] None"
        and user = "demo_user (Some bad_prefix_hash)" and e' = "InvalidHashPrefixError (CHR ''x'')"]
    by (simp add: f b lookup_bad_prefix compare_good)
  ultimately show ?thesis by simp
qed

subsection \<open>Stored credentials that do not decode\<close>

text \<open>
  C7, as the specification states it, fails in its second half: the stored string \<open>00\<close>
  decodes, so the lookup returns a record whose hash is the single zero byte. That hash
  is neither absent nor well formed: the comparison rejects it as too short.
\<close>

theorem decoded_hash_not_well_formed:
  "fst (getUserFromDB (demo_world [demo_row (Some ''00'')] None) ''1'') =
     Ok (demo_user (Some [CHR 0x00])) \<and>
   password (demo_user (Some [CHR 0x00])) \<noteq> None \<and>
   spec_malformed_hash [CHR 0x00] \<and>
   CompareHashAndPassword demo_kdf [CHR 0x00] ''secret'' = Err ErrHashTooShort"
  by (simp add: eval_defs)

text \<open>
  C7, amended: when the stored string does not decode as hex, the lookup returns the error
  of the decoder; both handlers answer with status 500, and the sign-in records no
  observation and counts no error. A record that the lookup returns has no hash when the
  column is NULL and has the decoded bytes of the column otherwise; nothing is said about
  whether these bytes are a well-formed hash.
\<close>

theorem hex_decode_failure_is_500:
  "(Atoi userID = Ok k \<and> QueryRow_Scan (db w) k = Ok rw \<and> col_password rw = Some str \<and>
    DecodeString str = Err e \<longrightarrow>
      fst (getUserFromDB w userID) = Err e \<and>
      (FormValue r ''id'' = userID \<longrightarrow>
         fst (signinHandler bcrypt dt w r) =
           Responded (http_Error ''Failed to get user'' StatusInternalServerError) \<and>
         hashLatency (snd (signinHandler bcrypt dt w r)) = hashLatency w \<and>
         hashError (snd (signinHandler bcrypt dt w r)) = hashError w) \<and>
      (Query_Get r ''id'' = userID \<longrightarrow>
         fst (getUserHandler quote w r) =
           Responded (http_Error ''Failed to get user'' StatusInternalServerError))) \<and>
   (fst (getUserFromDB w userID) = Ok user \<longrightarrow>
      (\<exists>k' rw'. Atoi userID = Ok k' \<and> QueryRow_Scan (db w) k' = Ok rw' \<and>
         map_option DecodeString (col_password rw') = map_option Ok (password user)))"
proof (intro conjI impI)
  assume a: "Atoi userID = Ok k \<and> QueryRow_Scan (db w) k = Ok rw \<and> col_password rw = Some str \<and>
    DecodeString str = Err e"
  then show lookup: "fst (getUserFromDB w userID) = Err e"
    by (simp add: getUserFromDB_def Let_def)
  from a have nonempty: "userID \<noteq> []"
    using Atoi_Ok_nonempty by blast
  {
    assume f: "FormValue r ''id'' = userID"
    then have run: "signinHandler bcrypt dt w r =
        (Responded (http_Error ''Failed to get user'' StatusInternalServerError),
         snd (getUserFromDB w userID))"
      using signinHandler_failed [of r w e bcrypt dt] nonempty lookup by simp
    show "fst (signinHandler bcrypt dt w r) =
        Responded (http_Error ''Failed to get user'' StatusInternalServerError)"
      by (simp add: run)
    show "hashLatency (snd (signinHandler bcrypt dt w r)) = hashLatency w"
      by (simp add: run getUserFromDB_instruments)
    show "hashError (snd (signinHandler bcrypt dt w r)) = hashError w"
      by (simp add: run getUserFromDB_instruments)
  }
  {
    assume "Query_Get r ''id'' = userID"
    then show "fst (getUserHandler quote w r) =
        Responded (http_Error ''Failed to get user'' StatusInternalServerError)"
      using getUserHandler_failed [of r w e quote] nonempty lookup by simp
  }
next
  assume "fst (getUserFromDB w userID) = Ok user"
  then show "\<exists>k' rw'. Atoi userID = Ok k' \<and> QueryRow_Scan (db w) k' = Ok rw' \<and>
      map_option DecodeString (col_password rw') = map_option Ok (password user)"
    by (auto simp: getUserFromDB_def Let_def split: result.splits option.splits)
qed

theorem hex_decode_failure_is_500_witness:
  "fst (getUserFromDB (demo_world [demo_row (Some ''zz'')] None) ''1'') =
     Err (InvalidByteError (CHR ''z'')) \<and>
   fst (signinHandler demo_kdf 5 (demo_world [demo_row (Some ''zz'')] None)
     (signin_request ''1'' ''secret'')) =
     Responded (http_Error ''Failed to get user'' StatusInternalServerError) \<and>
   hashLatency (snd (signinHandler demo_kdf 5 (demo_world [demo_row (Some ''zz'')] None)
     (signin_request ''1'' ''secret''))) = [] \<and>
   hashError (snd (signinHandler demo_kdf 5 (demo_world [demo_row (Some ''zz'')] None)
     (signin_request ''1'' ''secret''))) = [] \<and>
   fst (getUserHandler id (demo_world [demo_row (Some ''zz'')] None) (get_request ''1'')) =
     Responded (http_Error ''Failed to get user'' StatusInternalServerError) \<and>
   (\<exists>k' rw'. Atoi ''1'' = Ok k' \<and>
      QueryRow_Scan (db (demo_world [demo_row (Some stored_good)] None)) k' = Ok rw' \<and>
      map_option DecodeString (col_password rw') = Some (Ok good_hash))"
proof -
  have h: "Atoi ''1'' = Ok 1 \<and>
      QueryRow_Scan (db (demo_world [demo_row (Some ''zz'')] None)) 1 = Ok (demo_row (Some ''zz'')) \<and>
      col_password (demo_row (Some ''zz'')) = Some ''zz'' \<and>
      DecodeString ''zz'' = Err (InvalidByteError (CHR ''z''))"
    by (simp add: eval_defs)
  have f: "FormValue (signin_request ''1'' ''secret'') ''id'' = ''1''"
    by (simp add: eval_defs)
  have q: "Query_Get (get_request ''1'') ''id'' = ''1''"
    by (simp add: eval_defs)
  have empty: "hashLatency (demo_world rs None) = []" "hashError (demo_world rs None) = []" for rs
    by (simp_all add: demo_world_def)
  have p: "password (demo_user (Some good_hash)) = Some good_hash"
    by (simp add: demo_user_def)
  note failing = hex_decode_failure_is_500
    [where userID = "''1''" and k = 1 and w = "demo_world [demo_row (Some ''zz'')] None"
      and rw = "demo_row (Some ''zz'')" and str = "''zz''" and e = "InvalidByteError (CHR ''z'')"
      and bcrypt = demo_kdf and dt = 5 and quote = id]
  have "fst (getUserFromDB (demo_world [demo_row (Some ''zz'')] None) ''1'') =
      Err (InvalidByteError (CHR ''z'')) \<and>
    fst (signinHandler demo_kdf 5 (demo_world [demo_row (Some ''zz'')] None)
      (signin_request ''1'' ''secret'')) =
      Responded (http_Error ''Failed to get user'' StatusInternalServerError) \<and>
    hashLatency (snd (signinHandler demo_kdf 5 (demo_world [demo_row (Some ''zz'')] None)
      (signin_request ''1'' ''secret''))) = [] \<and>
    hashError (snd (signinHandler demo_kdf 5 (demo_world [demo_row (Some ''zz'')] None)
      (signin_request ''1'' ''secret''))) = []"
    using failing [where r = "signin_request ''1'' ''secret''"] h by (simp add: f empty)
  moreover have "fst (getUserHandler id (demo_world [demo_row (Some ''zz'')] None)
      (get_request ''1'')) =
      Responded (http_Error ''Failed to get user'' StatusInternalServerError)"
    using failing [where r = "get_request ''1''"] h by (simp add: q)
  moreover have "\<exists>k' rw'. Atoi ''1'' = Ok k' \<and>
      QueryRow_Scan (db (demo_world [demo_row (Some stored_good)] None)) k' = Ok rw' \<and>
      map_option DecodeString (col_password rw') = Some (Ok good_hash)"
    using hex_decode_failure_is_500
      [where userID = "''1''" and w = "demo_world [demo_row (Some stored_good)] None"
        and user = "demo_user (Some good_hash)"]
    by (simp add: lookup_good p)
  ultimately show ?thesis by blast
qed

subsection \<open>The attributes of the latency observation\<close>

text \<open>
  C8: every observation that a sign-in adds to the latency histogram carries one attribute,
  the boolean \<open>correct\<close>. No attribute has the key \<open>user_id\<close> that the view of
  \<open>setupOpenTelemetry\<close> filters out, and the attributes do not depend on the request
  beyond that boolean.
\<close>

theorem latency_attributes_only_correct:
  "\<forall>m \<in> set (recorded w (snd (signinHandler bcrypt dt w r))).
     (attributes m = [(''correct'', BoolValue True)] \<or>
      attributes m = [(''correct'', BoolValue False)]) \<and>
     map fst (attributes m) = [''correct''] \<and>
     list_all AttributeFilter (attributes m)"
proof -
  let ?uid = "FormValue r ''id''"
  have goal: "\<forall>m \<in> set ms.
      (attributes m = [(''correct'', BoolValue True)] \<or>
       attributes m = [(''correct'', BoolValue False)]) \<and>
      map fst (attributes m) = [''correct''] \<and> list_all AttributeFilter (attributes m)"
    if "ms = [] \<or> (\<exists>b. ms = [\<lparr>elapsed = dt, attributes = [(''correct'', BoolValue b)]\<rparr>])" for ms
    using that by (auto simp: AttributeFilter_def)
  have "recorded w (snd (signinHandler bcrypt dt w r)) = [] \<or>
    (\<exists>b. recorded w (snd (signinHandler bcrypt dt w r)) =
       [\<lparr>elapsed = dt, attributes = [(''correct'', BoolValue b)]\<rparr>])"
  proof (cases "?uid = []")
    case True
    then show ?thesis by (simp add: signinHandler_def recorded_def)
  next
    case False
    show ?thesis
    proof (cases "fst (getUserFromDB w ?uid)")
      case (Ok user)
      let ?w1 = "snd (getUserFromDB w ?uid)"
      have run: "signinHandler bcrypt dt w r =
          password_check bcrypt dt ?w1 user (FormValue r ''password'')"
        using False Ok by (rule signinHandler_found)
      have frame: "hashLatency ?w1 = hashLatency w"
        by (rule getUserFromDB_instruments)
      from Compare_cases [of bcrypt "bytes_of (password user)" "FormValue r ''password''"]
      show ?thesis
      proof (elim disjE exE)
        assume "CompareHashAndPassword bcrypt (bytes_of (password user)) (FormValue r ''password'')
          = Ok ()"
        then show ?thesis by (auto simp: run frame recorded_def password_check_Ok(2))
      next
        fix e
        assume "CompareHashAndPassword bcrypt (bytes_of (password user)) (FormValue r ''password'')
          = Err e"
        then show ?thesis by (auto simp: run frame recorded_def password_check_Err(2))
      qed
    next
      case (Err e)
      with False show ?thesis
        by (simp add: signinHandler_failed recorded_def getUserFromDB_instruments)
    next
      case (Panic m)
      then show ?thesis using getUserFromDB_no_panic [of w ?uid m] by simp
    qed
  qed
  then show ?thesis by (rule goal)
qed

theorem latency_attributes_only_correct_witness:
  "recorded (demo_world [demo_row (Some stored_good)] None)
     (snd (signinHandler demo_kdf 5 (demo_world [demo_row (Some stored_good)] None)
        (signin_request ''1'' ''secret''))) =
     [\<lparr>elapsed = 5, attributes = [(''correct'', BoolValue True)]\<rparr>] \<and>
   map fst (attributes \<lparr>elapsed = 5, attributes = [(''correct'', BoolValue True)]\<rparr>) = [''correct'']
   \<and> list_all AttributeFilter
       (attributes \<lparr>elapsed = 5, attributes = [(''correct'', BoolValue True)]\<rparr>)"
proof -
  have run: "recorded (demo_world [demo_row (Some stored_good)] None)
     (snd (signinHandler demo_kdf 5 (demo_world [demo_row (Some stored_good)] None)
        (signin_request ''1'' ''secret''))) =
     [\<lparr>elapsed = 5, attributes = [(''correct'', BoolValue True)]\<rparr>]"
    by (simp add: eval_defs)
  show ?thesis
    using latency_attributes_only_correct
      [where w = "demo_world [demo_row (Some stored_good)] None" and bcrypt = demo_kdf
        and dt = 5 and r = "signin_request ''1'' ''secret''"]
    by (simp add: run)
qed

subsection \<open>The body of GET /user\<close>

text \<open>
  C9: the encoding of a record does not depend on its hash. The response of GET /user
  for a record that the lookup returned has status 200 and a body made of the fields
  \<open>id\<close>, \<open>name\<close> and \<open>email\<close> only, so two lookups whose records differ in nothing but
  the hash get the same response.
\<close>

theorem password_not_serialized:
  \<open>Encode_User quote (user\<lparr>password := p\<rparr>) = Encode_User quote user \<and>
   (Query_Get r ''id'' \<noteq> [] \<and> fst (getUserFromDB w (Query_Get r ''id'')) = Ok user \<longrightarrow>
      fst (getUserHandler quote w r) =
        Responded \<lparr>status = StatusOK, headers = [(''Content-Type'', ''application/json'')],
                    body = ''{"id":'' @ FormatInt (ID user) @ '',"name":'' @ quote (Name user) @
                           '',"email":'' @ quote (Email user) @ ''}'' @ [CHR 0x0A]\<rparr>) \<and>
   (Query_Get r ''id'' \<noteq> [] \<and> fst (getUserFromDB w (Query_Get r ''id'')) = Ok user \<and>
    Query_Get r' ''id'' \<noteq> [] \<and>
    fst (getUserFromDB w' (Query_Get r' ''id'')) = Ok (user\<lparr>password := p\<rparr>) \<longrightarrow>
      fst (getUserHandler quote w r) = fst (getUserHandler quote w' r'))\<close>
proof (intro conjI impI)
  show same: "Encode_User quote (user\<lparr>password := p\<rparr>) = Encode_User quote user"
    by (simp add: Encode_User_def)
  {
    assume "Query_Get r ''id'' \<noteq> [] \<and> fst (getUserFromDB w (Query_Get r ''id'')) = Ok user"
    then show \<open>fst (getUserHandler quote w r) =
        Responded \<lparr>status = StatusOK, headers = [(''Content-Type'', ''application/json'')],
                    body = ''{"id":'' @ FormatInt (ID user) @ '',"name":'' @ quote (Name user) @
                           '',"email":'' @ quote (Email user) @ ''}'' @ [CHR 0x0A]\<rparr>\<close>
      using getUserHandler_found [of r w user quote] by (simp add: Encode_User_def)
  }
  {
    assume "Query_Get r ''id'' \<noteq> [] \<and> fst (getUserFromDB w (Query_Get r ''id'')) = Ok user \<and>
      Query_Get r' ''id'' \<noteq> [] \<and>
      fst (getUserFromDB w' (Query_Get r' ''id'')) = Ok (user\<lparr>password := p\<rparr>)"
    then show "fst (getUserHandler quote w r) = fst (getUserHandler quote w' r')"
      using getUserHandler_found [of r w user quote]
        getUserHandler_found [of r' w' "user\<lparr>password := p\<rparr>" quote] same
      by simp
  }
qed

theorem password_not_serialized_witness:
  \<open>fst (getUserHandler demo_quote (demo_world [demo_row None] None) (get_request ''1'')) =
     Responded \<lparr>status = StatusOK, headers = [(''Content-Type'', ''application/json'')],
                 body = ''{"id":1,"name":"Ann","email":"ann@example.org"}'' @ [CHR 0x0A]\<rparr> \<and>
   fst (getUserHandler demo_quote (demo_world [demo_row None] None) (get_request ''1'')) =
   fst (getUserHandler demo_quote (demo_world [demo_row (Some stored_good)] None)
     (get_request ''1''))\<close>
proof -
  have q: "Query_Get (get_request ''1'') ''id'' = ''1''"
    by (simp add: eval_defs)
  have u: "(demo_user None)\<lparr>password := Some good_hash\<rparr> = demo_user (Some good_hash)"
    by (simp add: demo_user_def)
  have fields: "ID (demo_user None) = 1" "Name (demo_user None) = ''Ann''"
    "Email (demo_user None) = ''ann@example.org''"
    by (simp_all add: demo_user_def)
  have one: "FormatInt 1 = ''1''"
    by (simp add: FormatInt_def char_of_eq_iff)
  note enc = password_not_serialized
    [where r = "get_request ''1''" and w = "demo_world [demo_row None] None"
      and user = "demo_user None" and p = "Some good_hash" and r' = "get_request ''1''"
      and w' = "demo_world [demo_row (Some stored_good)] None" and quote = demo_quote]
  have h1: "Query_Get (get_request ''1'') ''id'' \<noteq> [] \<and>
      fst (getUserFromDB (demo_world [demo_row None] None) (Query_Get (get_request ''1'') ''id''))
        = Ok (demo_user None)"
    by (simp add: q lookup_null)
  have h2: "Query_Get (get_request ''1'') ''id'' \<noteq> [] \<and>
      fst (getUserFromDB (demo_world [demo_row (Some stored_good)] None)
        (Query_Get (get_request ''1'') ''id'')) = Ok ((demo_user None)\<lparr>password := Some good_hash\<rparr>)"
    by (simp add: q u lookup_good)
  from enc h1 have \<open>fst (getUserHandler demo_quote (demo_world [demo_row None] None)
      (get_request ''1'')) =
      Responded \<lparr>status = StatusOK, headers = [(''Content-Type'', ''application/json'')],
        body = ''{"id":'' @ FormatInt (ID (demo_user None)) @
               '',"name":'' @ demo_quote (Name (demo_user None)) @
               '',"email":'' @ demo_quote (Email (demo_user None)) @ ''}'' @ [CHR 0x0A]\<rparr>\<close>
    by blast
  then have body: \<open>fst (getUserHandler demo_quote (demo_world [demo_row None] None)
      (get_request ''1'')) =
      Responded \<lparr>status = StatusOK, headers = [(''Content-Type'', ''application/json'')],
        body = ''{"id":1,"name":"Ann","email":"ann@example.org"}'' @ [CHR 0x0A]\<rparr>\<close>
    by (simp add: fields one demo_quote_def)
  from enc h1 h2 have "fst (getUserHandler demo_quote (demo_world [demo_row None] None)
      (get_request ''1'')) =
    fst (getUserHandler demo_quote (demo_world [demo_row (Some stored_good)] None)
      (get_request ''1''))"
    by blast
  with body show ?thesis by blast
qed

subsection \<open>Failed lookups and the instruments\<close>

text \<open>
  C10: a sign-in whose lookup returned no record (the identifier is missing, or the lookup
  returned an error: the identifier does not parse, no row has it, the store fails, or the
  stored hash does not decode) leaves the latency histogram and the error counter as they
  were and starts no span \<open>password_check\<close>. So these instruments change only in
  requests whose lookup returned a record.
\<close>

theorem lookup_failure_leaves_instruments:
  assumes "FormValue r ''id'' = [] \<or> (\<forall>user. fst (getUserFromDB w (FormValue r ''id'')) \<noteq> Ok user)"
  shows "hashLatency (snd (signinHandler bcrypt dt w r)) = hashLatency w \<and>
         hashError (snd (signinHandler bcrypt dt w r)) = hashError w \<and>
         spans_started (snd (signinHandler bcrypt dt w r)) = spans_started w \<and>
         spans_ended (snd (signinHandler bcrypt dt w r)) = spans_ended w"
proof (cases "FormValue r ''id'' = []")
  case True
  then show ?thesis by (simp add: signinHandler_def)
next
  case False
  with assms have none: "\<forall>user. fst (getUserFromDB w (FormValue r ''id'')) \<noteq> Ok user"
    by simp
  show ?thesis
  proof (cases "fst (getUserFromDB w (FormValue r ''id''))")
    case (Ok user)
    with none show ?thesis by simp
  next
    case (Err e)
    with False show ?thesis
      by (simp add: signinHandler_failed getUserFromDB_instruments)
  next
    case (Panic m)
    then show ?thesis using getUserFromDB_no_panic [of w "FormValue r ''id''" m] by simp
  qed
qed

theorem lookup_failure_leaves_instruments_witness:
  "hashLatency (snd (signinHandler demo_kdf 5 (demo_world [demo_row (Some stored_good)] None)
     (signin_request ''7'' ''secret''))) = [] \<and>
   hashError (snd (signinHandler demo_kdf 5 (demo_world [demo_row (Some stored_good)] None)
     (signin_request ''7'' ''secret''))) = [] \<and>
   spans_started (snd (signinHandler demo_kdf 5 (demo_world [demo_row (Some stored_good)] None)
     (signin_request ''7'' ''secret''))) = [] \<and>
   spans_ended (snd (signinHandler demo_kdf 5 (demo_world [demo_row (Some stored_good)] None)
     (signin_request ''7'' ''secret''))) = []"
proof -
  have h: "FormValue (signin_request ''7'' ''secret'') ''id'' = [] \<or>
      (\<forall>user. fst (getUserFromDB (demo_world [demo_row (Some stored_good)] None)
         (FormValue (signin_request ''7'' ''secret'') ''id'')) \<noteq> Ok user)"
    by (simp add: eval_defs)
  have empty: "hashLatency (demo_world rs None) = []" "hashError (demo_world rs None) = []"
    "spans_started (demo_world rs None) = []" "spans_ended (demo_world rs None) = []" for rs
    by (simp_all add: demo_world_def)
  show ?thesis
    using lookup_failure_leaves_instruments [OF h, where bcrypt = demo_kdf and dt = 5]
    by (simp add: empty)
qed

end
